theory Spec2Isabelle
  imports Main
begin

section \<open>The browsing context, the injected provider and the wallet extension\<close>

text \<open>
  The repository holds two wrappers over the wallet object that the Phantom browser
  extension injects into the page: the stateless module \<^verbatim>\<open>phantomWallet.js\<close>
  (\<^verbatim>\<open>getPhantomProvider\<close>, \<^verbatim>\<open>connectPhantomWallet\<close>, ...) and the class
  \<^verbatim>\<open>PhantomWalletAdapter\<close> of \<^verbatim>\<open>walletIntegration.ts\<close>, which caches the
  account and a connection flag. The script \<^verbatim>\<open>setup-solana-token-creator.sh\<close> writes
  a second \<^verbatim>\<open>phantomWallet.js\<close>; its locator and its asset-watch function, which
  differ from the first module's, are embedded beside them.

  The injected object is shared and mutable, so it lives in a store: a reference is a
  number, the store maps a reference to the object's current fields. The global
  \<^verbatim>\<open>window\<close> may be undefined (server-side rendering), which is \<open>None\<close>.
  JavaScript's \<^verbatim>\<open>null\<close> and \<^verbatim>\<open>undefined\<close> are both \<open>None\<close>: the code only ever
  tests such values for truthiness. A \<^verbatim>\<open>PublicKey\<close> is represented by the string its
  \<^verbatim>\<open>toString()\<close> yields.

  Console output (\<^verbatim>\<open>debugLog\<close>, \<^verbatim>\<open>console.log\<close>, \<^verbatim>\<open>console.error\<close>) is
  diagnostic only and is not part of the state modelled here. Every other effect of the
  code is: calls of the provider's methods, \<^verbatim>\<open>window.open\<close> and callback invocations
  are appended to a trace.

  An asynchronous function is one step, from the call to the settling of its promise.
  The code touches its own state only after the \<^verbatim>\<open>await\<close>, so an event that the
  provider emits while the promise is pending is a step of its own before that one.
\<close>

type_synonym ref = nat

text \<open>
  Function identities, as \<^verbatim>\<open>removeListener\<close> compares them. \<open>Fn n\<close> is a function
  of the caller; the other three are the closures that the adapter creates in
  \<^verbatim>\<open>_registerEvents\<close> (the application keeps one adapter, \<^verbatim>\<open>getPhantomWallet()\<close>).
\<close>

datatype callback = Fn nat | AdapterLoad | AdapterAccountChanged | AdapterDisconnect

record provider =
  isPhantom :: bool
  isConnected :: bool
  publicKey :: "string option"
  listeners :: "(string \<times> callback) list"

text \<open>\<^verbatim>\<open>window.phantom\<close> is a namespace object with an optional \<^verbatim>\<open>solana\<close> member.\<close>

record phantom_ns =
  solana :: "ref option"

text \<open>
  The part of \<^verbatim>\<open>window\<close> the code reads: \<open>phantom = None\<close> means that the key
  \<^verbatim>\<open>'phantom'\<close> is not in \<^verbatim>\<open>window\<close>; \<open>solana\<close> is the legacy binding
  \<^verbatim>\<open>window.solana\<close>; \<open>wlisteners\<close> are the listeners added with
  \<^verbatim>\<open>window.addEventListener\<close>.
\<close>

record window_obj =
  phantom :: "phantom_ns option"
  solana :: "ref option"
  wlisteners :: "(string \<times> callback) list"

datatype js_error =
    Error string
  | ReferenceError string
  | TypeError string
  | ProviderError int string

text \<open>The argument of \<^verbatim>\<open>provider.request\<close>: method, \<^verbatim>\<open>params.type\<close>, \<^verbatim>\<open>params.options.address\<close>.\<close>

datatype request = Request (req_method: string) (req_type: string) (req_address: string)

datatype effect =
    WindowOpen string string
  | ProviderConnect ref
  | ProviderDisconnect ref
  | ProviderRequest ref request
  | Invoked callback "string option"

record world =
  window :: "window_obj option"
  heap :: "ref \<Rightarrow> provider"
  trace :: "effect list"

text \<open>How a promise settles.\<close>

datatype 'a settled = Resolved 'a | Rejected js_error

text \<open>
  The provider's event emitter belongs to the extension, not to the repository. It is
  taken to be an emitter in the usual sense: \<^verbatim>\<open>on\<close> appends a registration, emitting
  an event invokes the functions registered for it in registration order, and
  \<^verbatim>\<open>removeListener\<close> removes either the way Node's \<^verbatim>\<open>EventEmitter\<close> does (at most
  one registration, the most recently added) or the way \<^verbatim>\<open>eventemitter3\<close> does (every
  registration of that function for that event). Which of the two is a parameter.
\<close>

datatype removal = RemoveLast | RemoveEvery

text \<open>
  The wallet extension is an external collaborator: what its \<^verbatim>\<open>connect()\<close>,
  \<^verbatim>\<open>disconnect()\<close> and \<^verbatim>\<open>request()\<close> do is a parameter. Each takes the provider
  object's fields at the call and gives how the promise settles and the object's fields
  then. The response of \<^verbatim>\<open>connect()\<close> is represented by its \<^verbatim>\<open>publicKey\<close> member
  (\<open>None\<close> when the response has none).
\<close>

record extension =
  connect_impl :: "provider \<Rightarrow> string option settled \<times> provider"
  disconnect_impl :: "provider \<Rightarrow> unit settled \<times> provider"
  request_impl :: "request \<Rightarrow> provider \<Rightarrow> unit settled \<times> provider"
  removal_impl :: removal

definition log_effect :: "effect \<Rightarrow> world \<Rightarrow> world" where
  "log_effect e w = w\<lparr>trace := trace w @ [e]\<rparr>"

definition set_provider :: "ref \<Rightarrow> provider \<Rightarrow> world \<Rightarrow> world" where
  "set_provider r p w = w\<lparr>heap := (heap w)(r := p)\<rparr>"

text \<open>
  \<^verbatim>\<open>provider.on(event, cb)\<close> and \<^verbatim>\<open>provider.removeListener(event, cb)\<close>;
  \<open>remove_last\<close> removes the last occurrence.
\<close>

definition remove_last :: "'a \<Rightarrow> 'a list \<Rightarrow> 'a list" where
  "remove_last x xs = rev (remove1 x (rev xs))"

definition provider_on :: "ref \<Rightarrow> string \<Rightarrow> callback \<Rightarrow> world \<Rightarrow> world" where
  "provider_on r ev cb w =
     set_provider r ((heap w r)\<lparr>listeners := listeners (heap w r) @ [(ev, cb)]\<rparr>) w"

definition drop_listener :: "removal \<Rightarrow> 'a \<Rightarrow> 'a list \<Rightarrow> 'a list" where
  "drop_listener k x xs =
     (case k of
        RemoveLast \<Rightarrow> remove_last x xs
      | RemoveEvery \<Rightarrow> removeAll x xs)"

definition provider_removeListener ::
  "removal \<Rightarrow> ref \<Rightarrow> string \<Rightarrow> callback \<Rightarrow> world \<Rightarrow> world" where
  "provider_removeListener k r ev cb w =
     set_provider r
       ((heap w r)\<lparr>listeners := drop_listener k (ev, cb) (listeners (heap w r))\<rparr>) w"

text \<open>
  The events the provider emits, each with the argument it passes to its listeners.
  Emitting invokes the functions registered for the event, in registration order.
\<close>

datatype event = EvConnect string | EvDisconnect | EvAccountChanged "string option"

fun event_name :: "event \<Rightarrow> string" where
  "event_name (EvConnect k) = ''connect''"
| "event_name EvDisconnect = ''disconnect''"
| "event_name (EvAccountChanged k) = ''accountChanged''"

fun event_arg :: "event \<Rightarrow> string option" where
  "event_arg (EvConnect k) = Some k"
| "event_arg EvDisconnect = None"
| "event_arg (EvAccountChanged k) = k"

definition receivers :: "event \<Rightarrow> provider \<Rightarrow> callback list" where
  "receivers e p = map snd (filter (\<lambda>l. fst l = event_name e) (listeners p))"

definition emit :: "ref \<Rightarrow> event \<Rightarrow> world \<Rightarrow> world" where
  "emit r e w = w\<lparr>trace := trace w @ map (\<lambda>cb. Invoked cb (event_arg e)) (receivers e (heap w r))\<rparr>"

fun emit_all :: "ref \<Rightarrow> event list \<Rightarrow> world \<Rightarrow> world" where
  "emit_all r [] w = w"
| "emit_all r (e # es) w = emit_all r es (emit r e w)"

section \<open>The module \<^verbatim>\<open>phantomWallet.js\<close>\<close>

definition isPhantomInstalled :: "world \<Rightarrow> bool" where
  "isPhantomInstalled w =
     (case window w of
        None \<Rightarrow> False
      | Some win \<Rightarrow>
          (case phantom win of
             None \<Rightarrow> False
           | Some ns \<Rightarrow>
               (case phantom_ns.solana ns of
                  None \<Rightarrow> False
                | Some r \<Rightarrow> isPhantom (heap w r))))"

definition getPhantomProvider :: "world \<Rightarrow> ref option" where
  "getPhantomProvider w =
     (case window w of
        None \<Rightarrow> None
      | Some win \<Rightarrow>
          (case phantom win of
             None \<Rightarrow> None
           | Some ns \<Rightarrow> phantom_ns.solana ns))"

definition connectPhantomWallet :: "extension \<Rightarrow> world \<Rightarrow> (js_error + string) \<times> world" where
  "connectPhantomWallet ext w =
     (case getPhantomProvider w of
        None \<Rightarrow>
          (case window w of
             None \<Rightarrow> (Inl (ReferenceError ''window is not defined''), w)
           | Some win \<Rightarrow>
               (Inl (Error ''Phantom wallet not installed. Please install it from phantom.app''),
                log_effect (WindowOpen ''https://phantom.app/'' ''_blank'') w))
      | Some r \<Rightarrow>
          (let (response, p') = connect_impl ext (heap w r);
               w' = set_provider r p' (log_effect (ProviderConnect r) w)
           in case response of
                Rejected e \<Rightarrow> (Inl e, w')
              | Resolved None \<Rightarrow>
                  (Inl (TypeError ''Cannot read properties of undefined (reading 'toString')''), w')
              | Resolved (Some k) \<Rightarrow> (Inr k, w')))"

definition disconnectPhantomWallet :: "extension \<Rightarrow> world \<Rightarrow> (js_error + unit) \<times> world" where
  "disconnectPhantomWallet ext w =
     (case getPhantomProvider w of
        None \<Rightarrow> (Inr (), w)
      | Some r \<Rightarrow>
          (let (outcome, p') = disconnect_impl ext (heap w r);
               w' = set_provider r p' (log_effect (ProviderDisconnect r) w)
           in case outcome of
                Rejected e \<Rightarrow> (Inl e, w')
              | Resolved u \<Rightarrow> (Inr (), w')))"

definition watchAsset :: "string \<Rightarrow> request" where
  "watchAsset tokenAddress = Request ''wallet_watchAsset'' ''SPL'' tokenAddress"

definition addTokenToPhantomWallet ::
  "extension \<Rightarrow> string \<Rightarrow> world \<Rightarrow> (js_error + unit) \<times> world" where
  "addTokenToPhantomWallet ext tokenAddress w =
     (case getPhantomProvider w of
        None \<Rightarrow> (Inl (Error ''Phantom wallet not installed''), w)
      | Some r \<Rightarrow>
          (let (outcome, p') = request_impl ext (watchAsset tokenAddress) (heap w r);
               w' = set_provider r p' (log_effect (ProviderRequest r (watchAsset tokenAddress)) w)
           in case outcome of
                Rejected e \<Rightarrow> (Inl e, w')
              | Resolved u \<Rightarrow> (Inr (), w')))"

text \<open>
  The callbacks object: each member is a function or missing. The teardown closure reads
  the members again when it is called; the object is taken not to change in between
  (the pages pass an object literal).
\<close>

record callbacks =
  onConnect :: "callback option"
  onDisconnect :: "callback option"
  onAccountChange :: "callback option"

text \<open>The three guarded statements of registration and of the teardown closure.\<close>

definition subscribe :: "ref \<Rightarrow> string \<Rightarrow> callback option \<Rightarrow> world \<Rightarrow> world" where
  "subscribe r ev cbo w = (case cbo of None \<Rightarrow> w | Some cb \<Rightarrow> provider_on r ev cb w)"

definition unsubscribe :: "removal \<Rightarrow> ref \<Rightarrow> string \<Rightarrow> callback option \<Rightarrow> world \<Rightarrow> world" where
  "unsubscribe k r ev cbo w =
     (case cbo of None \<Rightarrow> w | Some cb \<Rightarrow> provider_removeListener k r ev cb w)"

definition teardown :: "removal \<Rightarrow> ref \<Rightarrow> callbacks \<Rightarrow> world \<Rightarrow> world" where
  "teardown k r cbs w =
     unsubscribe k r ''accountChanged'' (onAccountChange cbs)
       (unsubscribe k r ''disconnect'' (onDisconnect cbs)
         (unsubscribe k r ''connect'' (onConnect cbs) w))"

text \<open>
  \<^verbatim>\<open>setupPhantomEventListeners\<close> returns the world after the registrations and the
  teardown closure, which has captured the provider reference and the callbacks object.
\<close>

definition setupPhantomEventListeners ::
  "extension \<Rightarrow> callbacks \<Rightarrow> world \<Rightarrow> world \<times> (world \<Rightarrow> world)" where
  "setupPhantomEventListeners ext cbs w =
     (case getPhantomProvider w of
        None \<Rightarrow> (w, (\<lambda>v. v))
      | Some r \<Rightarrow>
          (subscribe r ''accountChanged'' (onAccountChange cbs)
             (subscribe r ''disconnect'' (onDisconnect cbs)
               (subscribe r ''connect'' (onConnect cbs) w)),
           teardown (removal_impl ext) r cbs))"

definition isPhantomConnected :: "world \<Rightarrow> bool" where
  "isPhantomConnected w =
     (case getPhantomProvider w of
        None \<Rightarrow> False
      | Some r \<Rightarrow> isConnected (heap w r))"

text \<open>
  \<^verbatim>\<open>provider?.publicKey?.toString() || null\<close>: the empty string is falsy, so it
  becomes \<^verbatim>\<open>null\<close> too.
\<close>

definition getConnectedPublicKey :: "world \<Rightarrow> string option" where
  "getConnectedPublicKey w =
     (case getPhantomProvider w of
        None \<Rightarrow> None
      | Some r \<Rightarrow>
          (case publicKey (heap w r) of
             None \<Rightarrow> None
           | Some s \<Rightarrow> if s = [] then None else Some s))"

section \<open>The module that \<^verbatim>\<open>setup-solana-token-creator.sh\<close> writes\<close>

text \<open>
  The setup script writes a \<^verbatim>\<open>src/phantomWallet.js\<close> of its own. Its locator and
  its asset-watch function are not the ones above: the locator tests the
  \<^verbatim>\<open>isPhantom\<close> flag, and \<^verbatim>\<open>addTokenToPhantomWallet\<close> tests
  \<^verbatim>\<open>provider.isConnected\<close> before it issues the request.
\<close>

definition getPhantomProvider_script :: "world \<Rightarrow> ref option" where
  "getPhantomProvider_script w =
     (case window w of
        None \<Rightarrow> None
      | Some win \<Rightarrow>
          (case phantom win of
             None \<Rightarrow> None
           | Some ns \<Rightarrow>
               (case phantom_ns.solana ns of
                  None \<Rightarrow> None
                | Some r \<Rightarrow> if isPhantom (heap w r) then Some r else None)))"

definition isPhantomInstalled_script :: "world \<Rightarrow> bool" where
  "isPhantomInstalled_script w =
     (case window w of
        None \<Rightarrow> False
      | Some win \<Rightarrow> getPhantomProvider_script w \<noteq> None)"

definition addTokenToPhantomWallet_script ::
  "extension \<Rightarrow> string \<Rightarrow> world \<Rightarrow> (js_error + bool) \<times> world" where
  "addTokenToPhantomWallet_script ext tokenAddress w =
     (case getPhantomProvider_script w of
        None \<Rightarrow> (Inl (Error ''Phantom wallet not installed''), w)
      | Some r \<Rightarrow>
          if \<not> isConnected (heap w r) then (Inl (Error ''Phantom wallet not connected''), w)
          else
            (let (outcome, p') = request_impl ext (watchAsset tokenAddress) (heap w r);
                 w' = set_provider r p'
                        (log_effect (ProviderRequest r (watchAsset tokenAddress)) w)
             in case outcome of
                  Rejected e \<Rightarrow> (Inl e, w')
                | Resolved u \<Rightarrow> (Inr True, w')))"

section \<open>The class \<^verbatim>\<open>PhantomWalletAdapter\<close>\<close>

text \<open>
  The private fields \<^verbatim>\<open>_publicKey\<close>, \<^verbatim>\<open>_connected\<close> and \<^verbatim>\<open>_onDisconnect\<close>
  (an identifier cannot start with an underscore here, hence the prefix). Every method
  takes the adapter and the world and returns both: the result, the adapter, the world.
\<close>

record adapter =
  priv_publicKey :: "string option"
  priv_connected :: bool
  priv_onDisconnect :: "callback option"

text \<open>The field initialisers of the class.\<close>

definition adapter_init :: adapter where
  "adapter_init = \<lparr>priv_publicKey = None, priv_connected = False, priv_onDisconnect = None\<rparr>"

text \<open>
  \<^verbatim>\<open>_getProvider\<close> does not test \<^verbatim>\<open>typeof window\<close>: with no \<^verbatim>\<open>window\<close> the
  expression \<^verbatim>\<open>'phantom' in window\<close> throws a ReferenceError.
\<close>

definition adapter_getProvider :: "world \<Rightarrow> js_error + ref option" where
  "adapter_getProvider w =
     (case window w of
        None \<Rightarrow> Inl (ReferenceError ''window is not defined'')
      | Some win \<Rightarrow>
          (case phantom win of
             Some ns \<Rightarrow> Inr (phantom_ns.solana ns)
           | None \<Rightarrow>
               (case window_obj.solana win of
                  None \<Rightarrow> Inr None
                | Some r \<Rightarrow> if isPhantom (heap w r) then Inr (Some r) else Inr None)))"

definition adapter_checkForPhantom :: "world \<Rightarrow> js_error + bool" where
  "adapter_checkForPhantom w =
     (case adapter_getProvider w of
        Inl e \<Rightarrow> Inl e
      | Inr provider \<Rightarrow> Inr (provider \<noteq> None))"

text \<open>\<^verbatim>\<open>_handleDisconnect\<close>; the callback is called without an argument.\<close>

definition adapter_handleDisconnect :: "adapter \<times> world \<Rightarrow> adapter \<times> world" where
  "adapter_handleDisconnect s =
     (case s of (a, w) \<Rightarrow>
        (a\<lparr>priv_publicKey := None, priv_connected := False\<rparr>,
         (case priv_onDisconnect a of
            None \<Rightarrow> w
          | Some cb \<Rightarrow> log_effect (Invoked cb None) w)))"

text \<open>The listener that \<^verbatim>\<open>_registerEvents\<close> adds for \<^verbatim>\<open>'accountChanged'\<close>.\<close>

definition adapter_accountChanged :: "string option \<Rightarrow> adapter \<times> world \<Rightarrow> adapter \<times> world" where
  "adapter_accountChanged key s =
     (case s of (a, w) \<Rightarrow>
        (case key of
           Some k \<Rightarrow> (a\<lparr>priv_publicKey := Some k\<rparr>, w)
         | None \<Rightarrow> adapter_handleDisconnect (a, w)))"

definition adapter_checkConnection :: "adapter \<times> world \<Rightarrow> js_error + adapter \<times> world" where
  "adapter_checkConnection s =
     (case s of (a, w) \<Rightarrow>
        (case adapter_getProvider w of
           Inl e \<Rightarrow> Inl e
         | Inr None \<Rightarrow> Inr (a, w)
         | Inr (Some r) \<Rightarrow>
             if isConnected (heap w r)
             then Inr (a\<lparr>priv_publicKey := publicKey (heap w r), priv_connected := True\<rparr>, w)
             else Inr (a, w)))"

definition window_addEventListener :: "string \<Rightarrow> callback \<Rightarrow> world \<Rightarrow> world" where
  "window_addEventListener ev cb w =
     (case window w of
        None \<Rightarrow> w
      | Some win \<Rightarrow> w\<lparr>window := Some (win\<lparr>wlisteners := wlisteners win @ [(ev, cb)]\<rparr>)\<rparr>)"

definition adapter_registerEvents :: "world \<Rightarrow> js_error + world" where
  "adapter_registerEvents w =
     (case window w of
        None \<Rightarrow> Inr w
      | Some win \<Rightarrow>
          (let w1 = window_addEventListener ''load'' AdapterLoad w
           in case adapter_getProvider w1 of
                Inl e \<Rightarrow> Inl e
              | Inr None \<Rightarrow> Inr w1
              | Inr (Some r) \<Rightarrow>
                  Inr (provider_on r ''disconnect'' AdapterDisconnect
                         (provider_on r ''accountChanged'' AdapterAccountChanged w1))))"

text \<open>The constructor: field initialisers, \<^verbatim>\<open>_checkForPhantom()\<close>, \<^verbatim>\<open>_registerEvents()\<close>.\<close>

definition adapter_new :: "world \<Rightarrow> js_error + adapter \<times> world" where
  "adapter_new w =
     (case adapter_checkForPhantom w of
        Inl e \<Rightarrow> Inl e
      | Inr found \<Rightarrow>
          (case adapter_registerEvents w of
             Inl e \<Rightarrow> Inl e
           | Inr w' \<Rightarrow> Inr (adapter_init, w')))"

definition adapter_connect ::
  "extension \<Rightarrow> adapter \<times> world \<Rightarrow> (js_error + string) \<times> adapter \<times> world" where
  "adapter_connect ext s =
     (case s of (a, w) \<Rightarrow>
        (case adapter_getProvider w of
           Inl e \<Rightarrow> (Inl e, a, w)
         | Inr None \<Rightarrow>
             (Inl (Error ''Phantom wallet not installed. Please install Phantom wallet extension.''),
              a, w)
         | Inr (Some r) \<Rightarrow>
             (let (response, p') = connect_impl ext (heap w r);
                  w' = set_provider r p' (log_effect (ProviderConnect r) w)
              in case response of
                   Rejected e \<Rightarrow> (Inl e, a, w')
                 | Resolved None \<Rightarrow>
                     (Inl (TypeError ''Cannot read properties of undefined (reading 'toString')''),
                      a\<lparr>priv_publicKey := None, priv_connected := True\<rparr>, w')
                 | Resolved (Some k) \<Rightarrow>
                     (Inr k, a\<lparr>priv_publicKey := Some k, priv_connected := True\<rparr>, w'))))"

definition adapter_disconnect ::
  "extension \<Rightarrow> adapter \<times> world \<Rightarrow> (js_error + unit) \<times> adapter \<times> world" where
  "adapter_disconnect ext s =
     (case s of (a, w) \<Rightarrow>
        (case adapter_getProvider w of
           Inl e \<Rightarrow> (Inl e, a, w)
         | Inr None \<Rightarrow> (Inr (), a, w)
         | Inr (Some r) \<Rightarrow>
             (let (outcome, p') = disconnect_impl ext (heap w r);
                  w' = set_provider r p' (log_effect (ProviderDisconnect r) w)
              in case outcome of
                   Rejected e \<Rightarrow> (Inl e, a, w')
                 | Resolved u \<Rightarrow> (Inr (), adapter_handleDisconnect (a, w')))))"

text \<open>The setter \<^verbatim>\<open>onDisconnect(callback)\<close> and the two getters.\<close>

definition adapter_onDisconnect :: "callback \<Rightarrow> adapter \<Rightarrow> adapter" where
  "adapter_onDisconnect cb a = a\<lparr>priv_onDisconnect := Some cb\<rparr>"

definition adapter_publicKey :: "adapter \<Rightarrow> string option" where
  "adapter_publicKey a = priv_publicKey a"

definition adapter_connected :: "adapter \<Rightarrow> bool" where
  "adapter_connected a = priv_connected a"

definition adapter_addToken ::
  "extension \<Rightarrow> string \<Rightarrow> adapter \<times> world \<Rightarrow> (js_error + bool) \<times> adapter \<times> world" where
  "adapter_addToken ext tokenAddress s =
     (case s of (a, w) \<Rightarrow>
        (case adapter_getProvider w of
           Inl e \<Rightarrow> (Inl e, a, w)
         | Inr None \<Rightarrow> (Inl (Error ''Wallet not connected''), a, w)
         | Inr (Some r) \<Rightarrow>
             if \<not> priv_connected a then (Inl (Error ''Wallet not connected''), a, w)
             else
               (let (outcome, p') = request_impl ext (watchAsset tokenAddress) (heap w r);
                    w' = set_provider r p'
                           (log_effect (ProviderRequest r (watchAsset tokenAddress)) w)
                in case outcome of
                     Rejected e \<Rightarrow> (Inl e, a, w')
                   | Resolved u \<Rightarrow> (Inr True, a, w'))))"

text \<open>
  What an emitted event does to the adapter: the provider invokes the functions
  registered for the event; those that are the adapter's closures run their bodies, a
  function of the caller is opaque.
\<close>

fun run_listener :: "string option \<Rightarrow> callback \<Rightarrow> adapter \<times> world \<Rightarrow> adapter \<times> world" where
  "run_listener arg AdapterAccountChanged s = adapter_accountChanged arg s"
| "run_listener arg AdapterDisconnect s = adapter_handleDisconnect s"
| "run_listener arg AdapterLoad s =
     (case adapter_checkConnection s of Inl e \<Rightarrow> s | Inr s' \<Rightarrow> s')"
| "run_listener arg (Fn n) s = s"

definition deliver :: "ref \<Rightarrow> event \<Rightarrow> adapter \<times> world \<Rightarrow> adapter \<times> world" where
  "deliver r e s =
     (case s of (a, w) \<Rightarrow>
        foldl (\<lambda>s' cb. run_listener (event_arg e) cb (fst s', log_effect (Invoked cb (event_arg e)) (snd s')))
          (a, w) (receivers e (heap w r)))"

text \<open>
  The error kinds of the specification, read off the errors the code throws:
  \<^verbatim>\<open>WalletUnavailable\<close> is the provider not being found, \<^verbatim>\<open>NotConnected\<close> an
  operation that needs a session, \<^verbatim>\<open>UserRejected\<close> the provider's rejection (code 4001,
  as the test script reads it); everything else passes through.
\<close>

datatype error_kind = WalletUnavailable | UserRejected | NotConnected | PassedThrough

definition error_kind_of :: "js_error \<Rightarrow> error_kind" where
  "error_kind_of e =
     (if e = Error ''Phantom wallet not installed. Please install it from phantom.app''
         \<or> e = Error ''Phantom wallet not installed''
         \<or> e = Error ''Phantom wallet not installed. Please install Phantom wallet extension.''
      then WalletUnavailable
      else if e = Error ''Wallet not connected'' \<or> e = Error ''Phantom wallet not connected''
      then NotConnected
      else (case e of
              ProviderError code msg \<Rightarrow> if code = 4001 then UserRejected else PassedThrough
            | _ \<Rightarrow> PassedThrough))"

definition failure_kind :: "js_error + 'a \<Rightarrow> error_kind option" where
  "failure_kind res = (case res of Inl e \<Rightarrow> Some (error_kind_of e) | Inr v \<Rightarrow> None)"

text \<open>The convention of the data model: an account is stored only while connected.\<close>

definition account_only_when_connected :: "adapter \<Rightarrow> bool" where
  "account_only_when_connected a = (priv_publicKey a = None \<or> priv_connected a)"

text \<open>
  What a page can do to the adapter, one step at a time: call a method, or have one of
  the adapter's registered closures invoked with an argument.
\<close>

datatype action =
    DoConnect
  | DoDisconnect
  | DoAddToken string
  | SetOnDisconnect callback
  | Handle callback "string option"

fun adapter_step :: "extension \<Rightarrow> action \<Rightarrow> adapter \<times> world \<Rightarrow> adapter \<times> world" where
  "adapter_step ext DoConnect s = snd (adapter_connect ext s)"
| "adapter_step ext DoDisconnect s = snd (adapter_disconnect ext s)"
| "adapter_step ext (DoAddToken t) s = snd (adapter_addToken ext t s)"
| "adapter_step ext (SetOnDisconnect cb) s = (adapter_onDisconnect cb (fst s), snd s)"
| "adapter_step ext (Handle cb arg) s = run_listener arg cb s"

text \<open>The callbacks that a callbacks object holds, and the trace entries of their calls.\<close>

definition given :: "callbacks \<Rightarrow> callback set" where
  "given cbs = {cb. onConnect cbs = Some cb \<or> onDisconnect cbs = Some cb \<or> onAccountChange cbs = Some cb}"

fun invoked_callback :: "effect \<Rightarrow> callback option" where
  "invoked_callback (Invoked cb arg) = Some cb"
| "invoked_callback e = None"

text \<open>The trace entries added after a world \<open>v\<close>, in a later world \<open>v'\<close>.\<close>

definition since :: "world \<Rightarrow> world \<Rightarrow> effect list" where
  "since v v' = drop (length (trace v)) (trace v')"

text \<open>
  The registrations that \<^verbatim>\<open>setupPhantomEventListeners\<close> makes for a callbacks
  object, and what the teardown closure leaves of a listener list.
\<close>

definition subscriptions :: "callbacks \<Rightarrow> (string \<times> callback) list" where
  "subscriptions cbs =
     (case onConnect cbs of None \<Rightarrow> [] | Some cb \<Rightarrow> [(''connect'', cb)])
     @ (case onDisconnect cbs of None \<Rightarrow> [] | Some cb \<Rightarrow> [(''disconnect'', cb)])
     @ (case onAccountChange cbs of None \<Rightarrow> [] | Some cb \<Rightarrow> [(''accountChanged'', cb)])"

definition unsub_list ::
  "removal \<Rightarrow> string \<Rightarrow> callback option \<Rightarrow> (string \<times> callback) list \<Rightarrow> (string \<times> callback) list" where
  "unsub_list k ev cbo ls = (case cbo of None \<Rightarrow> ls | Some cb \<Rightarrow> drop_listener k (ev, cb) ls)"

definition torn :: "removal \<Rightarrow> callbacks \<Rightarrow> (string \<times> callback) list \<Rightarrow> (string \<times> callback) list" where
  "torn k cbs ls =
     unsub_list k ''accountChanged'' (onAccountChange cbs)
       (unsub_list k ''disconnect'' (onDisconnect cbs)
         (unsub_list k ''connect'' (onConnect cbs) ls))"

text \<open>
  None of the functions of a callbacks object is registered on the provider yet: the
  functions are the subscriber's own, as the closures that the pages pass are.
\<close>

definition unregistered :: "callbacks \<Rightarrow> provider \<Rightarrow> bool" where
  "unregistered cbs p = (\<forall>l \<in> set (listeners p). snd l \<notin> given cbs)"

section \<open>Concrete pages and extensions\<close>

definition idle_provider :: provider where
  "idle_provider = \<lparr>isPhantom = True, isConnected = False, publicKey = None, listeners = []\<rparr>"

definition unflagged_provider :: provider where
  "unflagged_provider = \<lparr>isPhantom = False, isConnected = False, publicKey = None, listeners = []\<rparr>"

text \<open>A page where \<^verbatim>\<open>window.phantom.solana\<close> is the object at reference 0.\<close>

definition phantom_page :: window_obj where
  "phantom_page = \<lparr>phantom = Some \<lparr>phantom_ns.solana = Some 0\<rparr>, window_obj.solana = None, wlisteners = []\<rparr>"

text \<open>A page without any wallet.\<close>

definition plain_page :: window_obj where
  "plain_page = \<lparr>phantom = None, window_obj.solana = None, wlisteners = []\<rparr>"

definition world_with :: "window_obj option \<Rightarrow> provider \<Rightarrow> world" where
  "world_with win p = \<lparr>window = win, heap = (\<lambda>r. p), trace = []\<rparr>"

text \<open>
  An extension whose user approves with the account \<open>k\<close>, and one whose user declines
  (and which refuses \<^verbatim>\<open>disconnect()\<close> and requests as well).
\<close>

definition approving :: "string \<Rightarrow> removal \<Rightarrow> extension" where
  "approving k rm =
     \<lparr>connect_impl = (\<lambda>p. (Resolved (Some k), p\<lparr>isConnected := True, publicKey := Some k\<rparr>)),
      disconnect_impl = (\<lambda>p. (Resolved (), p\<lparr>isConnected := False, publicKey := None\<rparr>)),
      request_impl = (\<lambda>q p. (Resolved (), p)),
      removal_impl = rm\<rparr>"

definition declining :: extension where
  "declining =
     \<lparr>connect_impl = (\<lambda>p. (Rejected (ProviderError 4001 ''User rejected the request.''), p)),
      disconnect_impl = (\<lambda>p. (Rejected (ProviderError 4100 ''Unauthorized''), p)),
      request_impl = (\<lambda>q p. (Rejected (ProviderError 4100 ''Unauthorized''), p)),
      removal_impl = RemoveLast\<rparr>"

definition three_callbacks :: callbacks where
  "three_callbacks = \<lparr>onConnect = Some (Fn 1), onDisconnect = Some (Fn 2), onAccountChange = Some (Fn 3)\<rparr>"

text \<open>
  A provider that is connected already, one on which other code listens, an adapter
  that has an \<^verbatim>\<open>onDisconnect\<close> callback, and an adapter with a session.
\<close>

definition connected_provider :: provider where
  "connected_provider =
     \<lparr>isPhantom = True, isConnected = True, publicKey = Some ''Addr000'', listeners = []\<rparr>"

definition observed_provider :: provider where
  "observed_provider =
     \<lparr>isPhantom = True, isConnected = False, publicKey = None,
      listeners = [(''disconnect'', Fn 9)]\<rparr>"

definition watched_adapter :: adapter where
  "watched_adapter =
     \<lparr>priv_publicKey = None, priv_connected = False, priv_onDisconnect = Some (Fn 7)\<rparr>"

definition session_adapter :: adapter where
  "session_adapter =
     \<lparr>priv_publicKey = Some ''Addr123'', priv_connected = True, priv_onDisconnect = None\<rparr>"

text \<open>A callbacks object whose function other code has registered on \<open>observed_provider\<close>.\<close>

definition shared_callbacks :: callbacks where
  "shared_callbacks = \<lparr>onConnect = None, onDisconnect = Some (Fn 9), onAccountChange = None\<rparr>"

section \<open>The provider locator\<close>

lemma getPhantomProvider_absent:
  assumes "window w = Some win"
      and "case phantom win of None \<Rightarrow> True | Some ns \<Rightarrow> phantom_ns.solana ns = None"
  shows "getPhantomProvider w = None"
  using assms by (simp add: getPhantomProvider_def split: option.splits)

lemma getPhantomProvider_without_window:
  "window w = None \<Longrightarrow> getPhantomProvider w = None"
  by (simp add: getPhantomProvider_def)

text \<open>
  Claim C5: the locator returns the injected object exactly when its \<^verbatim>\<open>isPhantom\<close>
  flag is set, and null otherwise. \<^verbatim>\<open>getPhantomProvider\<close> of \<^verbatim>\<open>phantomWallet.js\<close>
  does not do so: it never reads the flag. On a page whose \<^verbatim>\<open>window.phantom.solana\<close>
  is an object with the flag unset it returns that object, and so does \<^verbatim>\<open>_getProvider\<close>
  of the adapter. On the same page \<^verbatim>\<open>isPhantomInstalled\<close> of the same file answers
  false, and the locator that the setup script writes returns null, as the claim says.
\<close>

theorem locator_returns_unflagged_object:
  "getPhantomProvider (world_with (Some phantom_page) unflagged_provider) = Some 0
   \<and> adapter_getProvider (world_with (Some phantom_page) unflagged_provider) = Inr (Some 0)
   \<and> isPhantom (heap (world_with (Some phantom_page) unflagged_provider) 0) = False
   \<and> isPhantomInstalled (world_with (Some phantom_page) unflagged_provider) = False
   \<and> getPhantomProvider_script (world_with (Some phantom_page) unflagged_provider) = None"
  by (simp add: getPhantomProvider_def adapter_getProvider_def isPhantomInstalled_def
      getPhantomProvider_script_def world_with_def phantom_page_def unflagged_provider_def)

text \<open>
  What each locator returns. The one of the setup script returns the object at
  \<^verbatim>\<open>window.phantom.solana\<close> exactly when its flag is set; the one of
  \<^verbatim>\<open>phantomWallet.js\<close> exactly when the binding is present; \<^verbatim>\<open>_getProvider\<close>, on a
  page, reads the flag only of the legacy binding \<^verbatim>\<open>window.solana\<close>.
\<close>

lemma getPhantomProvider_script_flagged:
  "getPhantomProvider_script w = Some r \<longleftrightarrow>
     (\<exists>win ns. window w = Some win \<and> phantom win = Some ns \<and> phantom_ns.solana ns = Some r
        \<and> isPhantom (heap w r))"
  by (auto simp: getPhantomProvider_script_def split: option.splits if_splits)

lemma getPhantomProvider_bound:
  "getPhantomProvider w = Some r \<longleftrightarrow>
     (\<exists>win ns. window w = Some win \<and> phantom win = Some ns \<and> phantom_ns.solana ns = Some r)"
  by (auto simp: getPhantomProvider_def split: option.splits)

lemma adapter_getProvider_bound:
  assumes "window w = Some win"
  shows "adapter_getProvider w = Inr (Some r) \<longleftrightarrow>
           (\<exists>ns. phantom win = Some ns \<and> phantom_ns.solana ns = Some r)
           \<or> (phantom win = None \<and> window_obj.solana win = Some r \<and> isPhantom (heap w r))"
  using assms by (auto simp: adapter_getProvider_def split: option.splits)

text \<open>
  Without a \<^verbatim>\<open>window\<close>, \<^verbatim>\<open>_getProvider\<close> throws where the two module locators
  return null.
\<close>

lemma adapter_getProvider_without_window:
  "window w = None \<Longrightarrow> adapter_getProvider w = Inl (ReferenceError ''window is not defined'')"
  by (simp add: adapter_getProvider_def)

section \<open>Connecting without a provider\<close>

text \<open>
  Claim C3: on every page (a defined \<^verbatim>\<open>window\<close>) where no provider is injected,
  \<^verbatim>\<open>isPhantomConnected()\<close> returns false and \<^verbatim>\<open>connectPhantomWallet()\<close> fails with
  the not-installed error, which is the specification's \<^verbatim>\<open>WalletUnavailable\<close>, instead
  of returning an account. The adapter's \<^verbatim>\<open>connect()\<close> fails likewise when the legacy
  binding \<^verbatim>\<open>window.solana\<close> is missing too, or is not Phantom's.
\<close>

theorem absent_provider_unavailable:
  assumes "window w = Some win"
      and "case phantom win of None \<Rightarrow> True | Some ns \<Rightarrow> phantom_ns.solana ns = None"
  shows "isPhantomConnected w = False
       \<and> fst (connectPhantomWallet ext w) =
           Inl (Error ''Phantom wallet not installed. Please install it from phantom.app'')
       \<and> failure_kind (fst (connectPhantomWallet ext w)) = Some WalletUnavailable
       \<and> ((case window_obj.solana win of None \<Rightarrow> True | Some r \<Rightarrow> \<not> isPhantom (heap w r)) \<longrightarrow>
            fst (adapter_connect ext (a, w)) =
              Inl (Error ''Phantom wallet not installed. Please install Phantom wallet extension.'')
            \<and> failure_kind (fst (adapter_connect ext (a, w))) = Some WalletUnavailable)"
proof -
  have none: "getPhantomProvider w = None"
    using assms by (rule getPhantomProvider_absent)
  have m1: "isPhantomConnected w = False"
    by (simp add: isPhantomConnected_def none)
  have m2: "fst (connectPhantomWallet ext w) =
           Inl (Error ''Phantom wallet not installed. Please install it from phantom.app'')"
    by (simp add: connectPhantomWallet_def none assms(1))
  have m3: "failure_kind (fst (connectPhantomWallet ext w)) = Some WalletUnavailable"
    by (simp add: m2 failure_kind_def error_kind_of_def)
  have ad: "adapter_getProvider w = Inr None"
    if "case window_obj.solana win of None \<Rightarrow> True | Some r \<Rightarrow> \<not> isPhantom (heap w r)"
    using assms that by (auto simp: adapter_getProvider_def split: option.splits)
  have m4: "fst (adapter_connect ext (a, w)) =
              Inl (Error ''Phantom wallet not installed. Please install Phantom wallet extension.'')"
    if "case window_obj.solana win of None \<Rightarrow> True | Some r \<Rightarrow> \<not> isPhantom (heap w r)"
    by (simp add: adapter_connect_def ad[OF that])
  have m5: "failure_kind (fst (adapter_connect ext (a, w))) = Some WalletUnavailable"
    if "case window_obj.solana win of None \<Rightarrow> True | Some r \<Rightarrow> \<not> isPhantom (heap w r)"
    by (simp add: m4[OF that] failure_kind_def error_kind_of_def)
  show ?thesis using m1 m2 m3 m4 m5 by blast
qed

theorem absent_provider_unavailable_witness:
  "isPhantomConnected (world_with (Some plain_page) idle_provider) = False
   \<and> fst (connectPhantomWallet (approving ''Addr123'' RemoveLast)
            (world_with (Some plain_page) idle_provider)) =
       Inl (Error ''Phantom wallet not installed. Please install it from phantom.app'')
   \<and> failure_kind (fst (adapter_connect (approving ''Addr123'' RemoveLast)
         (adapter_init, world_with (Some plain_page) idle_provider))) = Some WalletUnavailable"
proof -
  have h1: "window (world_with (Some plain_page) idle_provider) = Some plain_page"
    by (simp add: world_with_def)
  have h2: "case phantom plain_page of None \<Rightarrow> True | Some ns \<Rightarrow> phantom_ns.solana ns = None"
    by (simp add: plain_page_def)
  have h3: "case window_obj.solana plain_page of None \<Rightarrow> True
            | Some r \<Rightarrow> \<not> isPhantom (heap (world_with (Some plain_page) idle_provider) r)"
    by (simp add: plain_page_def)
  from absent_provider_unavailable
         [OF h1 h2, of "approving ''Addr123'' RemoveLast" adapter_init] h3
  show ?thesis by blast
qed

text \<open>
  Without a \<^verbatim>\<open>window\<close> there is no page to open: the call stops at
  \<^verbatim>\<open>window.open\<close> with a ReferenceError.
\<close>

lemma connectPhantomWallet_without_window:
  "window w = None \<Longrightarrow>
     connectPhantomWallet ext w = (Inl (ReferenceError ''window is not defined''), w)"
  by (simp add: connectPhantomWallet_def getPhantomProvider_def)

text \<open>
  Claim C10: every call of \<^verbatim>\<open>connectPhantomWallet\<close> on a page where the locator
  returns null opens \<^verbatim>\<open>https://phantom.app/\<close> in a new tab and then throws the
  not-installed error; nothing else changes.
\<close>

theorem connect_opens_install_page:
  assumes "window w = Some win" and "getPhantomProvider w = None"
  shows "connectPhantomWallet ext w =
           (Inl (Error ''Phantom wallet not installed. Please install it from phantom.app''),
            w\<lparr>trace := trace w @ [WindowOpen ''https://phantom.app/'' ''_blank'']\<rparr>)"
  using assms by (simp add: connectPhantomWallet_def log_effect_def)

theorem connect_opens_install_page_witness:
  "connectPhantomWallet declining (world_with (Some plain_page) idle_provider) =
     (Inl (Error ''Phantom wallet not installed. Please install it from phantom.app''),
      \<lparr>window = Some plain_page, heap = (\<lambda>r. idle_provider),
       trace = [WindowOpen ''https://phantom.app/'' ''_blank'']\<rparr>)"
proof -
  have h1: "window (world_with (Some plain_page) idle_provider) = Some plain_page"
    by (simp add: world_with_def)
  have h2: "getPhantomProvider (world_with (Some plain_page) idle_provider) = None"
    by (simp add: getPhantomProvider_def world_with_def plain_page_def)
  from connect_opens_install_page [OF h1 h2, of declining] show ?thesis
    by (simp add: world_with_def)
qed

section \<open>Watching an asset\<close>

text \<open>
  Claim C1: the asset-watch operation called while no session is active fails with
  \<^verbatim>\<open>NotConnected\<close> and issues no \<^verbatim>\<open>wallet_watchAsset\<close> request.
  \<^verbatim>\<open>addTokenToPhantomWallet\<close> of \<^verbatim>\<open>phantomWallet.js\<close> does not do so: it tests
  only for the provider. On a page whose provider is present and not connected, with no
  connect ever made, it issues the request and resolves. At the same input the function
  of the same name that the setup script writes, and \<^verbatim>\<open>addToken\<close> of the adapter, fail
  with their not-connected errors and issue nothing, as the claim says.
\<close>

theorem addToken_without_session_issues_request:
  "isPhantomConnected (world_with (Some phantom_page) idle_provider) = False
   \<and> fst (addTokenToPhantomWallet (approving ''Addr123'' RemoveLast) ''Mint1''
       (world_with (Some phantom_page) idle_provider)) = Inr ()
   \<and> trace (snd (addTokenToPhantomWallet (approving ''Addr123'' RemoveLast) ''Mint1''
       (world_with (Some phantom_page) idle_provider))) =
       [ProviderRequest 0 (Request ''wallet_watchAsset'' ''SPL'' ''Mint1'')]
   \<and> addTokenToPhantomWallet_script (approving ''Addr123'' RemoveLast) ''Mint1''
       (world_with (Some phantom_page) idle_provider) =
       (Inl (Error ''Phantom wallet not connected''), world_with (Some phantom_page) idle_provider)
   \<and> adapter_addToken (approving ''Addr123'' RemoveLast) ''Mint1''
       (adapter_init, world_with (Some phantom_page) idle_provider) =
       (Inl (Error ''Wallet not connected''), adapter_init,
        world_with (Some phantom_page) idle_provider)
   \<and> error_kind_of (Error ''Phantom wallet not connected'') = NotConnected
   \<and> error_kind_of (Error ''Wallet not connected'') = NotConnected"
proof -
  let ?w = "world_with (Some phantom_page) idle_provider"
  have found: "getPhantomProvider ?w = Some 0"
    by (simp add: getPhantomProvider_def world_with_def phantom_page_def)
  have found_script: "getPhantomProvider_script ?w = Some 0"
    by (simp add: getPhantomProvider_script_def world_with_def phantom_page_def idle_provider_def)
  have found_adapter: "adapter_getProvider ?w = Inr (Some 0)"
    by (simp add: adapter_getProvider_def world_with_def phantom_page_def)
  have idle: "\<not> isConnected (heap ?w 0)"
    by (simp add: world_with_def idle_provider_def)
  have m1: "isPhantomConnected ?w = False"
    using idle by (simp add: isPhantomConnected_def found)
  have m2: "fst (addTokenToPhantomWallet (approving ''Addr123'' RemoveLast) ''Mint1'' ?w) = Inr ()"
    by (simp add: addTokenToPhantomWallet_def found approving_def)
  have m3: "trace (snd (addTokenToPhantomWallet (approving ''Addr123'' RemoveLast) ''Mint1'' ?w)) =
       [ProviderRequest 0 (Request ''wallet_watchAsset'' ''SPL'' ''Mint1'')]"
    by (simp add: addTokenToPhantomWallet_def getPhantomProvider_def world_with_def
        phantom_page_def approving_def log_effect_def set_provider_def watchAsset_def)
  have m4: "addTokenToPhantomWallet_script (approving ''Addr123'' RemoveLast) ''Mint1'' ?w =
       (Inl (Error ''Phantom wallet not connected''), ?w)"
    using idle by (simp add: addTokenToPhantomWallet_script_def found_script)
  have m5: "adapter_addToken (approving ''Addr123'' RemoveLast) ''Mint1'' (adapter_init, ?w) =
       (Inl (Error ''Wallet not connected''), adapter_init, ?w)"
    by (simp add: adapter_addToken_def found_adapter adapter_init_def)
  have m6: "error_kind_of (Error ''Phantom wallet not connected'') = NotConnected"
           "error_kind_of (Error ''Wallet not connected'') = NotConnected"
    by (simp_all add: error_kind_of_def)
  show ?thesis using m1 m2 m3 m4 m5 m6 by simp
qed

text \<open>
  The three asset-watch functions on every world. The adapter answers a missing provider
  with its not-connected error too; the two module functions answer it with the
  not-installed error.
\<close>

lemma adapter_addToken_guard:
  assumes "adapter_getProvider w = Inr found"
      and "found = None \<or> \<not> priv_connected a"
  shows "adapter_addToken ext tokenAddress (a, w) = (Inl (Error ''Wallet not connected''), a, w)"
  using assms by (auto simp: adapter_addToken_def split: option.splits)

lemma addTokenToPhantomWallet_script_guard:
  "getPhantomProvider_script w = None \<Longrightarrow>
     addTokenToPhantomWallet_script ext tokenAddress w =
       (Inl (Error ''Phantom wallet not installed''), w)"
  "getPhantomProvider_script w = Some r \<Longrightarrow> \<not> isConnected (heap w r) \<Longrightarrow>
     addTokenToPhantomWallet_script ext tokenAddress w =
       (Inl (Error ''Phantom wallet not connected''), w)"
  by (simp_all add: addTokenToPhantomWallet_script_def)

lemma addTokenToPhantomWallet_absent:
  "getPhantomProvider w = None \<Longrightarrow>
     addTokenToPhantomWallet ext tokenAddress w = (Inl (Error ''Phantom wallet not installed''), w)"
  by (simp add: addTokenToPhantomWallet_def)

lemma addTokenToPhantomWallet_present:
  assumes "getPhantomProvider w = Some r"
  shows "trace (snd (addTokenToPhantomWallet ext tokenAddress w)) =
           trace w @ [ProviderRequest r (watchAsset tokenAddress)]"
    and "fst (addTokenToPhantomWallet ext tokenAddress w) =
           (case fst (request_impl ext (watchAsset tokenAddress) (heap w r)) of
              Rejected e \<Rightarrow> Inl e | Resolved u \<Rightarrow> Inr ())"
  using assms
  by (simp_all add: addTokenToPhantomWallet_def set_provider_def log_effect_def Let_def
      split: prod.splits settled.splits)

section \<open>Connecting\<close>

text \<open>
  Claim C4: when \<^verbatim>\<open>connect()\<close> of the adapter fails because no provider is present
  or because the provider rejects (the user declines), the adapter is exactly as it was
  before the call: the account, the connection flag and the callback.
\<close>

theorem failed_connect_keeps_adapter:
  "(adapter_getProvider w = Inr None \<longrightarrow>
      adapter_connect ext (a, w) =
        (Inl (Error ''Phantom wallet not installed. Please install Phantom wallet extension.''),
         a, w))
   \<and> (adapter_getProvider w = Inr (Some r) \<and> fst (connect_impl ext (heap w r)) = Rejected e \<longrightarrow>
      fst (adapter_connect ext (a, w)) = Inl e
      \<and> fst (snd (adapter_connect ext (a, w))) = a)"
  by (auto simp: adapter_connect_def Let_def split: prod.splits settled.splits option.splits)

theorem failed_connect_keeps_adapter_witness:
  "adapter_connect declining (adapter_init, world_with (Some plain_page) idle_provider) =
        (Inl (Error ''Phantom wallet not installed. Please install Phantom wallet extension.''),
         adapter_init, world_with (Some plain_page) idle_provider)
   \<and> fst (adapter_connect declining
        (session_adapter, world_with (Some phantom_page) idle_provider)) =
       Inl (ProviderError 4001 ''User rejected the request.'')
   \<and> failure_kind (fst (adapter_connect declining
        (session_adapter, world_with (Some phantom_page) idle_provider))) = Some UserRejected
   \<and> fst (snd (adapter_connect declining
        (session_adapter, world_with (Some phantom_page) idle_provider))) = session_adapter"
proof -
  have h1: "adapter_getProvider (world_with (Some plain_page) idle_provider) = Inr None"
    by (simp add: adapter_getProvider_def world_with_def plain_page_def)
  have h2: "adapter_getProvider (world_with (Some phantom_page) idle_provider) = Inr (Some 0)"
    by (simp add: adapter_getProvider_def world_with_def phantom_page_def)
  have h3: "fst (connect_impl declining (heap (world_with (Some phantom_page) idle_provider) 0)) =
            Rejected (ProviderError 4001 ''User rejected the request.'')"
    by (simp add: declining_def)
  from failed_connect_keeps_adapter
         [of "world_with (Some plain_page) idle_provider" declining adapter_init 0
             "ProviderError 4001 ''User rejected the request.''"]
       failed_connect_keeps_adapter
         [of "world_with (Some phantom_page) idle_provider" declining session_adapter 0
             "ProviderError 4001 ''User rejected the request.''"]
       h1 h2 h3
  show ?thesis by (simp add: failure_kind_def error_kind_of_def)
qed

text \<open>
  The other ways in which \<^verbatim>\<open>connect()\<close> can fail: without a \<^verbatim>\<open>window\<close> nothing
  changes either; a response without a \<^verbatim>\<open>publicKey\<close> is stored before
  \<^verbatim>\<open>publicKey.toString()\<close> throws.
\<close>

lemma adapter_connect_without_window:
  "window w = None \<Longrightarrow>
     adapter_connect ext (a, w) = (Inl (ReferenceError ''window is not defined''), a, w)"
  by (simp add: adapter_connect_def adapter_getProvider_def)

lemma adapter_connect_without_key:
  assumes "adapter_getProvider w = Inr (Some r)"
      and "fst (connect_impl ext (heap w r)) = Resolved None"
  shows "fst (snd (adapter_connect ext (a, w))) = a\<lparr>priv_publicKey := None, priv_connected := True\<rparr>"
  using assms by (auto simp: adapter_connect_def Let_def split: prod.splits)

lemma heap_set_provider: "heap (set_provider r p w) r = p"
  by (simp add: set_provider_def)

lemma getPhantomProvider_set_provider:
  "getPhantomProvider (set_provider r p w) = getPhantomProvider w"
  by (simp add: getPhantomProvider_def set_provider_def)

lemma getPhantomProvider_log_effect:
  "getPhantomProvider (log_effect e w) = getPhantomProvider w"
  by (simp add: getPhantomProvider_def log_effect_def)

lemma connectPhantomWallet_present:
  "getPhantomProvider w = Some r \<Longrightarrow>
     snd (connectPhantomWallet ext w) =
       set_provider r (snd (connect_impl ext (heap w r))) (log_effect (ProviderConnect r) w)"
  by (simp add: connectPhantomWallet_def Let_def split: prod.splits settled.splits option.splits)

lemma connect_resolved_state:
  "fst (adapter_connect ext (a, w)) = Inr k \<Longrightarrow>
     fst (snd (adapter_connect ext (a, w))) = a\<lparr>priv_publicKey := Some k, priv_connected := True\<rparr>"
  by (auto simp: adapter_connect_def Let_def
        split: prod.splits settled.splits option.splits sum.splits)

text \<open>
  Claim C8: when \<^verbatim>\<open>connect()\<close> resolves with a public key, the read that follows
  returns that key. The adapter returns the key it stored from the response. The module
  keeps nothing: \<^verbatim>\<open>getConnectedPublicKey()\<close> reads the provider's own
  \<^verbatim>\<open>publicKey\<close> property, so it returns the key of the response exactly when the
  provider holds that key in its property, as the provider's interface has it (a key's
  string is never empty).
\<close>

theorem read_after_connect:
  "(fst (adapter_connect ext (a, w)) = Inr k \<longrightarrow>
      adapter_publicKey (fst (snd (adapter_connect ext (a, w)))) = Some k
      \<and> adapter_connected (fst (snd (adapter_connect ext (a, w)))))
   \<and> (fst (connectPhantomWallet ext w) = Inr k \<and> getPhantomProvider w = Some r \<and> k \<noteq> [] \<longrightarrow>
      (getConnectedPublicKey (snd (connectPhantomWallet ext w)) = Some k
       \<longleftrightarrow> publicKey (snd (connect_impl ext (heap w r))) = Some k))"
proof -
  have A: "adapter_publicKey (fst (snd (adapter_connect ext (a, w)))) = Some k
      \<and> adapter_connected (fst (snd (adapter_connect ext (a, w))))"
    if "fst (adapter_connect ext (a, w)) = Inr k"
    by (simp add: connect_resolved_state [OF that] adapter_publicKey_def adapter_connected_def)
  have B: "getConnectedPublicKey (snd (connectPhantomWallet ext w)) = Some k
       \<longleftrightarrow> publicKey (snd (connect_impl ext (heap w r))) = Some k"
    if "getPhantomProvider w = Some r" "k \<noteq> []"
    using that
    by (auto simp: connectPhantomWallet_present getConnectedPublicKey_def heap_set_provider
        getPhantomProvider_set_provider getPhantomProvider_log_effect split: option.splits)
  show ?thesis using A B by blast
qed

theorem read_after_connect_witness:
  "adapter_publicKey (fst (snd (adapter_connect (approving ''Addr123'' RemoveLast)
       (adapter_init, world_with (Some phantom_page) idle_provider)))) = Some ''Addr123''
   \<and> fst (connectPhantomWallet (approving ''Addr123'' RemoveLast)
       (world_with (Some phantom_page) idle_provider)) = Inr ''Addr123''
   \<and> getConnectedPublicKey (snd (connectPhantomWallet (approving ''Addr123'' RemoveLast)
       (world_with (Some phantom_page) idle_provider))) = Some ''Addr123''"
proof -
  have h1: "fst (adapter_connect (approving ''Addr123'' RemoveLast)
       (adapter_init, world_with (Some phantom_page) idle_provider)) = Inr ''Addr123''"
    by (simp add: adapter_connect_def adapter_getProvider_def world_with_def phantom_page_def
        approving_def)
  have h2: "fst (connectPhantomWallet (approving ''Addr123'' RemoveLast)
       (world_with (Some phantom_page) idle_provider)) = Inr ''Addr123''"
    by (simp add: connectPhantomWallet_def getPhantomProvider_def world_with_def phantom_page_def
        approving_def)
  have h3: "getPhantomProvider (world_with (Some phantom_page) idle_provider) = Some 0"
    by (simp add: getPhantomProvider_def world_with_def phantom_page_def)
  have h4: "publicKey (snd (connect_impl (approving ''Addr123'' RemoveLast)
              (heap (world_with (Some phantom_page) idle_provider) 0))) = Some ''Addr123''"
    by (simp add: approving_def)
  have h5: "''Addr123'' \<noteq> []" by simp
  from read_after_connect
         [of "approving ''Addr123'' RemoveLast" adapter_init
             "world_with (Some phantom_page) idle_provider" "''Addr123''" 0]
       h1 h2 h3 h4 h5
  show ?thesis by simp
qed

section \<open>Disconnecting\<close>

text \<open>
  Claim C9 says that disconnecting without a session never throws and is a no-op, also
  when a provider is present but unconnected. The code tests only for the provider: when
  one is present the call goes to \<^verbatim>\<open>provider.disconnect()\<close> and a rejection is
  thrown on; when the provider resolves, the adapter runs \<^verbatim>\<open>_handleDisconnect\<close>, which
  notifies the \<^verbatim>\<open>onDisconnect\<close> callback.
\<close>

theorem disconnect_unconnected_not_noop:
  "isPhantomConnected (world_with (Some phantom_page) idle_provider) = False
   \<and> fst (disconnectPhantomWallet declining (world_with (Some phantom_page) idle_provider)) =
       Inl (ProviderError 4100 ''Unauthorized'')
   \<and> fst (adapter_disconnect declining
            (adapter_init, world_with (Some phantom_page) idle_provider)) =
       Inl (ProviderError 4100 ''Unauthorized'')
   \<and> trace (snd (snd (adapter_disconnect (approving ''Addr123'' RemoveLast)
         (watched_adapter, world_with (Some phantom_page) idle_provider)))) =
       [ProviderDisconnect 0, Invoked (Fn 7) None]"
  by (simp add: isPhantomConnected_def getPhantomProvider_def world_with_def phantom_page_def
      idle_provider_def disconnectPhantomWallet_def declining_def adapter_disconnect_def
      adapter_getProvider_def approving_def watched_adapter_def adapter_init_def
      adapter_handleDisconnect_def log_effect_def set_provider_def)

text \<open>
  Claim C9, amended: with the provider absent, \<^verbatim>\<open>disconnectPhantomWallet()\<close> and
  \<^verbatim>\<open>disconnect()\<close> of the adapter do nothing and do not throw. With a provider
  present the call is forwarded to \<^verbatim>\<open>provider.disconnect()\<close> whatever the session: it
  throws exactly when that promise rejects, with the provider's error; when the promise
  resolves, an adapter without session keeps its null account and its disconnected flag,
  and its \<^verbatim>\<open>onDisconnect\<close> callback, if set, is notified.
\<close>

theorem disconnect_forwards:
  "(getPhantomProvider w = None \<longrightarrow> disconnectPhantomWallet ext w = (Inr (), w))
   \<and> (adapter_getProvider w = Inr None \<longrightarrow> adapter_disconnect ext (a, w) = (Inr (), a, w))
   \<and> (getPhantomProvider w = Some r \<longrightarrow>
        fst (disconnectPhantomWallet ext w) =
          (case fst (disconnect_impl ext (heap w r)) of
             Rejected e \<Rightarrow> Inl e | Resolved u \<Rightarrow> Inr ()))
   \<and> (adapter_getProvider w = Inr (Some r) \<longrightarrow>
        fst (adapter_disconnect ext (a, w)) =
          (case fst (disconnect_impl ext (heap w r)) of
             Rejected e \<Rightarrow> Inl e | Resolved u \<Rightarrow> Inr ())
        \<and> (fst (disconnect_impl ext (heap w r)) = Resolved ()
             \<and> priv_publicKey a = None \<and> \<not> priv_connected a \<longrightarrow>
             fst (snd (adapter_disconnect ext (a, w))) = a
             \<and> trace (snd (snd (adapter_disconnect ext (a, w)))) =
                 trace w @ [ProviderDisconnect r]
                 @ (case priv_onDisconnect a of None \<Rightarrow> [] | Some cb \<Rightarrow> [Invoked cb None])))"
proof -
  have A: "disconnectPhantomWallet ext w = (Inr (), w)" if "getPhantomProvider w = None"
    using that by (simp add: disconnectPhantomWallet_def)
  have B: "adapter_disconnect ext (a, w) = (Inr (), a, w)" if "adapter_getProvider w = Inr None"
    using that by (simp add: adapter_disconnect_def)
  have C: "fst (disconnectPhantomWallet ext w) =
          (case fst (disconnect_impl ext (heap w r)) of
             Rejected e \<Rightarrow> Inl e | Resolved u \<Rightarrow> Inr ())"
    if "getPhantomProvider w = Some r"
    using that
    by (simp add: disconnectPhantomWallet_def Let_def split: prod.splits settled.splits)
  have D: "fst (adapter_disconnect ext (a, w)) =
          (case fst (disconnect_impl ext (heap w r)) of
             Rejected e \<Rightarrow> Inl e | Resolved u \<Rightarrow> Inr ())"
    if "adapter_getProvider w = Inr (Some r)"
    using that by (simp add: adapter_disconnect_def Let_def split: prod.splits settled.splits)
  have E: "fst (snd (adapter_disconnect ext (a, w))) = a"
    if "adapter_getProvider w = Inr (Some r)" "priv_publicKey a = None" "\<not> priv_connected a"
    using that
    by (simp add: adapter_disconnect_def adapter_handleDisconnect_def Let_def
        split: prod.splits settled.splits)
  have F: "trace (snd (snd (adapter_disconnect ext (a, w)))) =
                 trace w @ [ProviderDisconnect r]
                 @ (case priv_onDisconnect a of None \<Rightarrow> [] | Some cb \<Rightarrow> [Invoked cb None])"
    if "adapter_getProvider w = Inr (Some r)" "fst (disconnect_impl ext (heap w r)) = Resolved ()"
    using that
    by (auto simp: adapter_disconnect_def adapter_handleDisconnect_def Let_def log_effect_def
        set_provider_def split: prod.splits option.splits)
  show ?thesis using A B C D E F by blast
qed

theorem disconnect_forwards_witness:
  "disconnectPhantomWallet declining (world_with (Some plain_page) idle_provider) =
     (Inr (), world_with (Some plain_page) idle_provider)
   \<and> adapter_disconnect declining (adapter_init, world_with (Some plain_page) idle_provider) =
     (Inr (), adapter_init, world_with (Some plain_page) idle_provider)
   \<and> fst (disconnectPhantomWallet (approving ''Addr123'' RemoveLast)
        (world_with (Some phantom_page) idle_provider)) = Inr ()
   \<and> fst (adapter_disconnect (approving ''Addr123'' RemoveLast)
        (watched_adapter, world_with (Some phantom_page) idle_provider)) = Inr ()
   \<and> fst (snd (adapter_disconnect (approving ''Addr123'' RemoveLast)
        (watched_adapter, world_with (Some phantom_page) idle_provider))) = watched_adapter"
proof -
  have h1: "getPhantomProvider (world_with (Some plain_page) idle_provider) = None"
    by (simp add: getPhantomProvider_def world_with_def plain_page_def)
  have h2: "adapter_getProvider (world_with (Some plain_page) idle_provider) = Inr None"
    by (simp add: adapter_getProvider_def world_with_def plain_page_def)
  have h3: "getPhantomProvider (world_with (Some phantom_page) idle_provider) = Some 0"
    by (simp add: getPhantomProvider_def world_with_def phantom_page_def)
  have h4: "adapter_getProvider (world_with (Some phantom_page) idle_provider) = Inr (Some 0)"
    by (simp add: adapter_getProvider_def world_with_def phantom_page_def)
  have h5: "fst (disconnect_impl (approving ''Addr123'' RemoveLast)
               (heap (world_with (Some phantom_page) idle_provider) 0)) = Resolved ()"
    by (simp add: approving_def)
  have h6: "priv_publicKey watched_adapter = None \<and> \<not> priv_connected watched_adapter"
    by (simp add: watched_adapter_def)
  from disconnect_forwards
         [of "world_with (Some plain_page) idle_provider" declining adapter_init 0]
       disconnect_forwards
         [of "world_with (Some phantom_page) idle_provider" "approving ''Addr123'' RemoveLast"
             watched_adapter 0]
       h1 h2 h3 h4 h5 h6
  show ?thesis by simp
qed

section \<open>The account is stored only while connected\<close>

text \<open>
  Claim C2 says that every operation and event handler of the adapter keeps the account
  null unless the adapter is connected. The listener for \<^verbatim>\<open>'accountChanged'\<close> stores
  a key without looking at the connection flag: an adapter constructed on a page whose
  wallet is connected already (the \<^verbatim>\<open>load\<close> event is past, so \<^verbatim>\<open>_checkConnection\<close>
  does not run) is disconnected with a null account, and when the user switches the
  account in the wallet it holds an account while disconnected.
\<close>

theorem accountChanged_stores_while_disconnected:
  "(case adapter_new (world_with (Some phantom_page) connected_provider) of
      Inl e \<Rightarrow> False
    | Inr s \<Rightarrow>
        account_only_when_connected (fst s)
        \<and> fst (deliver 0 (EvAccountChanged (Some ''Addr123'')) s) =
            \<lparr>priv_publicKey = Some ''Addr123'', priv_connected = False, priv_onDisconnect = None\<rparr>
        \<and> \<not> account_only_when_connected (fst (deliver 0 (EvAccountChanged (Some ''Addr123'')) s)))"
  by (simp add: adapter_new_def adapter_checkForPhantom_def adapter_getProvider_def world_with_def
      phantom_page_def adapter_registerEvents_def window_addEventListener_def provider_on_def
      set_provider_def connected_provider_def adapter_init_def account_only_when_connected_def
      deliver_def receivers_def log_effect_def adapter_accountChanged_def)

lemma inv_handleDisconnect: "account_only_when_connected (fst (adapter_handleDisconnect s))"
  by (cases s) (simp add: adapter_handleDisconnect_def account_only_when_connected_def)

lemma inv_connect:
  "account_only_when_connected (fst s) \<Longrightarrow>
     account_only_when_connected (fst (snd (adapter_connect ext s)))"
  by (cases s) (auto simp: adapter_connect_def account_only_when_connected_def Let_def
      split: sum.splits option.splits prod.splits settled.splits)

lemma inv_disconnect:
  "account_only_when_connected (fst s) \<Longrightarrow>
     account_only_when_connected (fst (snd (adapter_disconnect ext s)))"
  by (cases s) (auto simp: adapter_disconnect_def inv_handleDisconnect Let_def
      split: sum.splits option.splits prod.splits settled.splits)

lemma addToken_keeps_adapter: "fst (snd (adapter_addToken ext t s)) = fst s"
  by (cases s) (auto simp: adapter_addToken_def Let_def
      split: sum.splits option.splits prod.splits settled.splits)

lemma inv_checkConnection:
  "account_only_when_connected (fst s) \<Longrightarrow> adapter_checkConnection s = Inr s' \<Longrightarrow>
     account_only_when_connected (fst s')"
  by (cases s) (auto simp: adapter_checkConnection_def account_only_when_connected_def
      split: sum.splits option.splits if_splits)

lemma inv_run_listener:
  assumes "account_only_when_connected (fst s)"
      and "\<forall>k. cb = AdapterAccountChanged \<and> arg = Some k \<longrightarrow> priv_connected (fst s)"
  shows "account_only_when_connected (fst (run_listener arg cb s))"
proof (cases cb)
  case (Fn n)
  then show ?thesis using assms by simp
next
  case AdapterLoad
  then show ?thesis using assms(1) by (auto split: sum.splits dest: inv_checkConnection)
next
  case AdapterAccountChanged
  show ?thesis
  proof (cases arg)
    case None
    then show ?thesis using AdapterAccountChanged
      by (cases s) (simp add: adapter_accountChanged_def inv_handleDisconnect)
  next
    case (Some k)
    then have "priv_connected (fst s)" using assms(2) AdapterAccountChanged by simp
    then show ?thesis using AdapterAccountChanged Some
      by (cases s) (simp add: adapter_accountChanged_def account_only_when_connected_def)
  qed
next
  case AdapterDisconnect
  then show ?thesis by (simp add: inv_handleDisconnect)
qed

lemma inv_step:
  assumes "account_only_when_connected (fst s)"
      and "\<forall>k. act = Handle AdapterAccountChanged (Some k) \<longrightarrow> priv_connected (fst s)"
  shows "account_only_when_connected (fst (adapter_step ext act s))"
proof (cases act)
  case DoConnect
  then show ?thesis using assms(1) by (simp add: inv_connect)
next
  case DoDisconnect
  then show ?thesis using assms(1) by (simp add: inv_disconnect)
next
  case (DoAddToken t)
  then show ?thesis using assms(1) by (simp add: addToken_keeps_adapter)
next
  case (SetOnDisconnect cb)
  then show ?thesis using assms(1)
    by (simp add: adapter_onDisconnect_def account_only_when_connected_def)
next
  case (Handle cb arg)
  then show ?thesis using assms by (simp add: inv_run_listener)
qed

text \<open>
  Claim C2, amended: every method of the adapter and every listener it registers keeps
  the account null unless the adapter is connected, except that the listener for
  \<^verbatim>\<open>'accountChanged'\<close>, given a key, stores it whatever the connection flag, so that
  it keeps the convention only when the adapter is connected. And a connect that
  resolves with an account leaves the adapter connected with that account, after which
  the provider's \<^verbatim>\<open>disconnect\<close> event leaves it disconnected with a null account.
\<close>

theorem adapter_keeps_convention:
  "(account_only_when_connected a
      \<and> (\<forall>k. act = Handle AdapterAccountChanged (Some k) \<longrightarrow> priv_connected a) \<longrightarrow>
      account_only_when_connected (fst (adapter_step ext act (a, w))))
   \<and> (fst (adapter_connect ext (a, w)) = Inr k \<longrightarrow>
        priv_connected (fst (adapter_step ext DoConnect (a, w)))
        \<and> priv_publicKey (fst (adapter_step ext DoConnect (a, w))) = Some k
        \<and> \<not> priv_connected (fst (adapter_step ext (Handle AdapterDisconnect None)
                                    (adapter_step ext DoConnect (a, w))))
        \<and> priv_publicKey (fst (adapter_step ext (Handle AdapterDisconnect None)
                                    (adapter_step ext DoConnect (a, w)))) = None)"
proof -
  have A: "account_only_when_connected (fst (adapter_step ext act (a, w)))"
    if "account_only_when_connected a"
       "\<forall>k. act = Handle AdapterAccountChanged (Some k) \<longrightarrow> priv_connected a"
    using inv_step [of "(a, w)" act ext] that by simp
  have B: "priv_connected (fst (adapter_step ext DoConnect (a, w)))
        \<and> priv_publicKey (fst (adapter_step ext DoConnect (a, w))) = Some k"
    if "fst (adapter_connect ext (a, w)) = Inr k"
    using connect_resolved_state [OF that] by simp
  have C: "\<not> priv_connected (fst (adapter_step ext (Handle AdapterDisconnect None) s))
        \<and> priv_publicKey (fst (adapter_step ext (Handle AdapterDisconnect None) s)) = None" for s
    by (cases s) (simp add: adapter_handleDisconnect_def)
  show ?thesis using A B C by blast
qed

theorem adapter_keeps_convention_witness:
  "account_only_when_connected
     (fst (adapter_step (approving ''Addr123'' RemoveLast)
             (Handle AdapterAccountChanged (Some ''Addr999''))
             (session_adapter, world_with (Some phantom_page) idle_provider)))
   \<and> priv_connected (fst (adapter_step (approving ''Addr123'' RemoveLast) DoConnect
        (adapter_init, world_with (Some phantom_page) idle_provider)))
   \<and> priv_publicKey (fst (adapter_step (approving ''Addr123'' RemoveLast) DoConnect
        (adapter_init, world_with (Some phantom_page) idle_provider))) = Some ''Addr123''
   \<and> \<not> priv_connected (fst (adapter_step (approving ''Addr123'' RemoveLast)
        (Handle AdapterDisconnect None)
        (adapter_step (approving ''Addr123'' RemoveLast) DoConnect
           (adapter_init, world_with (Some phantom_page) idle_provider))))
   \<and> priv_publicKey (fst (adapter_step (approving ''Addr123'' RemoveLast)
        (Handle AdapterDisconnect None)
        (adapter_step (approving ''Addr123'' RemoveLast) DoConnect
           (adapter_init, world_with (Some phantom_page) idle_provider)))) = None"
proof -
  have h1: "account_only_when_connected session_adapter"
    by (simp add: account_only_when_connected_def session_adapter_def)
  have h2: "priv_connected session_adapter"
    by (simp add: session_adapter_def)
  have h3: "fst (adapter_connect (approving ''Addr123'' RemoveLast)
       (adapter_init, world_with (Some phantom_page) idle_provider)) = Inr ''Addr123''"
    by (simp add: adapter_connect_def adapter_getProvider_def world_with_def phantom_page_def
        approving_def)
  from adapter_keeps_convention
         [of session_adapter "Handle AdapterAccountChanged (Some ''Addr999'')"
             "approving ''Addr123'' RemoveLast" "world_with (Some phantom_page) idle_provider"
             "''Addr123''"]
       adapter_keeps_convention
         [of adapter_init DoConnect
             "approving ''Addr123'' RemoveLast" "world_with (Some phantom_page) idle_provider"
             "''Addr123''"]
       h1 h2 h3
  show ?thesis by simp
qed

text \<open>
  The scenario of the specification through the registered listeners: the adapter is
  constructed on a page with the wallet, the user approves the account \<^verbatim>\<open>Addr123\<close>,
  then the provider emits \<^verbatim>\<open>disconnect\<close>.
\<close>

lemma scenario_connect_then_disconnect_event:
  "(case adapter_new (world_with (Some phantom_page) idle_provider) of
      Inl e \<Rightarrow> False
    | Inr s \<Rightarrow>
        fst s = adapter_init
        \<and> fst (adapter_connect (approving ''Addr123'' RemoveLast) s) = Inr ''Addr123''
        \<and> fst (snd (adapter_connect (approving ''Addr123'' RemoveLast) s)) = session_adapter
        \<and> fst (deliver 0 EvDisconnect (snd (adapter_connect (approving ''Addr123'' RemoveLast) s)))
            = adapter_init)"
  by (simp add: adapter_new_def adapter_checkForPhantom_def adapter_getProvider_def world_with_def
      phantom_page_def adapter_registerEvents_def window_addEventListener_def provider_on_def
      set_provider_def idle_provider_def adapter_init_def session_adapter_def
      adapter_connect_def approving_def
      deliver_def receivers_def log_effect_def adapter_handleDisconnect_def)

section \<open>The event relay\<close>

lemma remove_last_absent: "x \<notin> set xs \<Longrightarrow> remove_last x xs = xs"
  by (simp add: remove_last_def remove1_idem)

lemma remove_last_append: "x \<notin> set xs \<Longrightarrow> remove_last x (xs @ ys) = xs @ remove_last x ys"
  by (simp add: remove_last_def remove1_append remove1_idem)

lemma drop_listener_absent: "x \<notin> set xs \<Longrightarrow> drop_listener k x xs = xs"
  by (cases k) (simp_all add: drop_listener_def remove_last_absent)

lemma drop_listener_append:
  "x \<notin> set xs \<Longrightarrow> drop_listener k x (xs @ ys) = xs @ drop_listener k x ys"
  by (cases k) (simp_all add: drop_listener_def remove_last_append)

lemma unsub_list_absent:
  "(\<And>cb. cbo = Some cb \<Longrightarrow> (ev, cb) \<notin> set xs) \<Longrightarrow> unsub_list k ev cbo xs = xs"
  by (cases cbo) (simp_all add: unsub_list_def drop_listener_absent)

lemma unsub_list_append:
  "(\<And>cb. cbo = Some cb \<Longrightarrow> (ev, cb) \<notin> set xs) \<Longrightarrow>
     unsub_list k ev cbo (xs @ ys) = xs @ unsub_list k ev cbo ys"
  by (cases cbo) (simp_all add: unsub_list_def drop_listener_append)

text \<open>The teardown removes what the subscription has added, under either convention.\<close>

lemma torn_subscriptions: "torn k cbs (subscriptions cbs) = []"
  by (cases k; cases "onConnect cbs"; cases "onDisconnect cbs"; cases "onAccountChange cbs")
     (simp_all add: torn_def subscriptions_def unsub_list_def drop_listener_def remove_last_def)

lemma unregistered_pairs:
  assumes "unregistered cbs p"
  shows "onConnect cbs = Some cb \<Longrightarrow> (ev, cb) \<notin> set (listeners p)"
    and "onDisconnect cbs = Some cb \<Longrightarrow> (ev, cb) \<notin> set (listeners p)"
    and "onAccountChange cbs = Some cb \<Longrightarrow> (ev, cb) \<notin> set (listeners p)"
  using assms by (auto simp: unregistered_def given_def)

lemma torn_after_setup:
  assumes "unregistered cbs p"
  shows "torn k cbs (listeners p @ subscriptions cbs) = listeners p"
proof -
  have "torn k cbs (listeners p @ subscriptions cbs) = listeners p @ torn k cbs (subscriptions cbs)"
    unfolding torn_def
    by (simp add: unsub_list_append unregistered_pairs [OF assms])
  then show ?thesis by (simp add: torn_subscriptions)
qed

lemma torn_absent:
  assumes "unregistered cbs p"
  shows "torn k cbs (listeners p) = listeners p"
  unfolding torn_def
  by (simp add: unsub_list_absent unregistered_pairs [OF assms])

lemma torn_every_idem:
  "torn RemoveEvery cbs (torn RemoveEvery cbs ls) = torn RemoveEvery cbs ls"
  by (cases "onConnect cbs"; cases "onDisconnect cbs"; cases "onAccountChange cbs")
     (auto simp: torn_def unsub_list_def drop_listener_def removeAll_filter_not_eq
        intro!: filter_cong)

lemma subscribe_as_update:
  "subscribe r ev cbo w =
     set_provider r ((heap w r)\<lparr>listeners := listeners (heap w r)
        @ (case cbo of None \<Rightarrow> [] | Some cb \<Rightarrow> [(ev, cb)])\<rparr>) w"
  by (cases cbo) (simp_all add: subscribe_def provider_on_def set_provider_def)

lemma unsubscribe_as_update:
  "unsubscribe k r ev cbo w =
     set_provider r ((heap w r)\<lparr>listeners := unsub_list k ev cbo (listeners (heap w r))\<rparr>) w"
  by (cases cbo)
     (simp_all add: unsubscribe_def provider_removeListener_def unsub_list_def set_provider_def)

lemma setup_present:
  assumes "getPhantomProvider w = Some r"
  shows "setupPhantomEventListeners ext cbs w =
     (set_provider r ((heap w r)\<lparr>listeners := listeners (heap w r) @ subscriptions cbs\<rparr>) w,
      teardown (removal_impl ext) r cbs)"
  using assms
  by (simp add: setupPhantomEventListeners_def subscribe_as_update subscriptions_def
      set_provider_def)

lemma teardown_as_update:
  "teardown k r cbs w =
     set_provider r ((heap w r)\<lparr>listeners := torn k cbs (listeners (heap w r))\<rparr>) w"
  by (simp add: teardown_def unsubscribe_as_update torn_def set_provider_def)

lemma teardown_twice:
  assumes "torn k cbs (torn k cbs (listeners (heap v r))) = torn k cbs (listeners (heap v r))"
  shows "teardown k r cbs (teardown k r cbs v) = teardown k r cbs v"
  using assms by (simp add: teardown_as_update set_provider_def)

lemma funpow_idem:
  assumes "f (f x) = f x"
  shows "(f ^^ Suc n) x = f x"
  using assms by (induction n) simp_all

lemma emit_keeps:
  "heap (emit r e w) = heap w" "window (emit r e w) = window w"
  by (simp_all add: emit_def)

lemma emit_all_keeps:
  "heap (emit_all r es w) = heap w" "window (emit_all r es w) = window w"
  by (induction es arbitrary: w) (simp_all add: emit_keeps)

lemma trace_emit_all:
  "trace (emit_all r es w) =
     trace w @ concat (map (\<lambda>e. map (\<lambda>cb. Invoked cb (event_arg e)) (receivers e (heap w r))) es)"
  by (induction es arbitrary: w) (simp_all add: emit_def emit_keeps)

lemma since_emit_all:
  "since w (emit_all r es w) =
     concat (map (\<lambda>e. map (\<lambda>cb. Invoked cb (event_arg e)) (receivers e (heap w r))) es)"
  by (simp add: since_def trace_emit_all)

lemma receivers_registered: "cb \<in> set (receivers e p) \<Longrightarrow> cb \<in> snd ` set (listeners p)"
  by (auto simp: receivers_def)

lemma emitted_are_registered:
  assumes "x \<in> set (since w (emit_all r es w))"
  shows "\<exists>cb arg. x = Invoked cb arg \<and> cb \<in> snd ` set (listeners (heap w r))"
  using assms by (auto simp: since_emit_all dest: receivers_registered)

text \<open>
  Claim C6: a page subscribes callbacks of its own (functions not registered on the
  provider before) with \<^verbatim>\<open>setupPhantomEventListeners\<close>; the provider emits events;
  the page calls the returned teardown function. Whatever events the provider emits from
  then on, none of the callbacks is invoked. This holds for both conventions of
  \<^verbatim>\<open>removeListener\<close>.
\<close>

theorem no_callback_after_teardown:
  assumes "getPhantomProvider w = Some r"
      and "unregistered cbs (heap w r)"
      and "setupPhantomEventListeners ext cbs w = (w1, td)"
  shows "\<forall>x \<in> set (since (td (emit_all r earlier w1))
                       (emit_all r later (td (emit_all r earlier w1)))).
           \<forall>cb. invoked_callback x = Some cb \<longrightarrow> cb \<notin> given cbs"
proof -
  let ?v = "emit_all r earlier w1"
  have w1: "w1 = set_provider r
                   ((heap w r)\<lparr>listeners := listeners (heap w r) @ subscriptions cbs\<rparr>) w"
    and td: "td = teardown (removal_impl ext) r cbs"
    using assms(3) by (simp_all add: setup_present [OF assms(1)])
  have "listeners (heap ?v r) = listeners (heap w r) @ subscriptions cbs"
    by (simp add: w1 set_provider_def emit_all_keeps)
  then have after: "listeners (heap (td ?v) r) = listeners (heap w r)"
    by (simp add: td teardown_as_update set_provider_def torn_after_setup [OF assms(2)])
  show ?thesis
  proof (intro ballI allI impI)
    fix x cb
    assume x: "x \<in> set (since (td ?v) (emit_all r later (td ?v)))"
       and cb: "invoked_callback x = Some cb"
    from emitted_are_registered [OF x] after cb
    have "cb \<in> snd ` set (listeners (heap w r))" by force
    then show "cb \<notin> given cbs"
      using assms(2) by (auto simp: unregistered_def)
  qed
qed

theorem no_callback_after_teardown_witness:
  "since (fst (setupPhantomEventListeners (approving ''Addr123'' RemoveLast) three_callbacks
                 (world_with (Some phantom_page) observed_provider)))
         (emit_all 0 [EvConnect ''Addr123'', EvDisconnect]
            (fst (setupPhantomEventListeners (approving ''Addr123'' RemoveLast) three_callbacks
                    (world_with (Some phantom_page) observed_provider))))
     = [Invoked (Fn 1) (Some ''Addr123''), Invoked (Fn 9) None, Invoked (Fn 2) None]
   \<and> Invoked (Fn 1) (Some ''Addr123'') \<notin>
       set (since
             (snd (setupPhantomEventListeners (approving ''Addr123'' RemoveLast) three_callbacks
                     (world_with (Some phantom_page) observed_provider))
                (emit_all 0 [EvConnect ''Addr123'', EvDisconnect]
                   (fst (setupPhantomEventListeners (approving ''Addr123'' RemoveLast)
                           three_callbacks (world_with (Some phantom_page) observed_provider)))))
             (emit_all 0 [EvConnect ''Addr123'', EvDisconnect, EvAccountChanged None]
                (snd (setupPhantomEventListeners (approving ''Addr123'' RemoveLast) three_callbacks
                        (world_with (Some phantom_page) observed_provider))
                   (emit_all 0 [EvConnect ''Addr123'', EvDisconnect]
                      (fst (setupPhantomEventListeners (approving ''Addr123'' RemoveLast)
                              three_callbacks
                              (world_with (Some phantom_page) observed_provider)))))))"
proof -
  let ?w = "world_with (Some phantom_page) observed_provider"
  let ?s = "setupPhantomEventListeners (approving ''Addr123'' RemoveLast) three_callbacks ?w"
  have h1: "getPhantomProvider ?w = Some 0"
    by (simp add: getPhantomProvider_def world_with_def phantom_page_def)
  have h2: "unregistered three_callbacks (heap ?w 0)"
    by (simp add: unregistered_def given_def three_callbacks_def world_with_def
        observed_provider_def)
  have h3: "?s = (fst ?s, snd ?s)"
    by simp
  have live: "since (fst ?s) (emit_all 0 [EvConnect ''Addr123'', EvDisconnect] (fst ?s))
     = [Invoked (Fn 1) (Some ''Addr123''), Invoked (Fn 9) None, Invoked (Fn 2) None]"
    by (simp only: setup_present [OF h1] fst_conv since_emit_all)
       (simp add: receivers_def subscriptions_def three_callbacks_def world_with_def
          observed_provider_def heap_set_provider)
  have own: "Fn 1 \<in> given three_callbacks"
    by (simp add: given_def three_callbacks_def)
  from no_callback_after_teardown
         [OF h1 h2 h3, of "[EvConnect ''Addr123'', EvDisconnect]"
             "[EvConnect ''Addr123'', EvDisconnect, EvAccountChanged None]"]
       own
  have "Invoked (Fn 1) (Some ''Addr123'') \<notin>
       set (since (snd ?s (emit_all 0 [EvConnect ''Addr123'', EvDisconnect] (fst ?s)))
             (emit_all 0 [EvConnect ''Addr123'', EvDisconnect, EvAccountChanged None]
                (snd ?s (emit_all 0 [EvConnect ''Addr123'', EvDisconnect] (fst ?s)))))"
    by fastforce
  with live show ?thesis by simp
qed

text \<open>
  Claim C7 says that the teardown function is idempotent for every callbacks object.
  It calls \<^verbatim>\<open>removeListener\<close> again on every call and keeps no record of having
  run. Where \<^verbatim>\<open>removeListener\<close> removes one registration at a time (Node's
  \<^verbatim>\<open>EventEmitter\<close>) and other code has registered the same function for the same
  event, the first call removes the subscription's registration and the second call
  removes the other one: two calls leave fewer registrations than one.
\<close>

theorem teardown_twice_with_shared_function:
  "listeners (heap (snd (setupPhantomEventListeners declining shared_callbacks
                           (world_with (Some phantom_page) observed_provider))
                      (fst (setupPhantomEventListeners declining shared_callbacks
                              (world_with (Some phantom_page) observed_provider)))) 0)
     = [(''disconnect'', Fn 9)]
   \<and> listeners (heap (snd (setupPhantomEventListeners declining shared_callbacks
                           (world_with (Some phantom_page) observed_provider))
                      (snd (setupPhantomEventListeners declining shared_callbacks
                              (world_with (Some phantom_page) observed_provider))
                         (fst (setupPhantomEventListeners declining shared_callbacks
                                 (world_with (Some phantom_page) observed_provider))))) 0)
     = []"
proof -
  have h: "getPhantomProvider (world_with (Some phantom_page) observed_provider) = Some 0"
    by (simp add: getPhantomProvider_def world_with_def phantom_page_def)
  show ?thesis
    by (simp only: setup_present [OF h] fst_conv snd_conv)
       (simp add: teardown_as_update torn_def unsub_list_def drop_listener_def remove_last_def
          subscriptions_def shared_callbacks_def declining_def world_with_def
          observed_provider_def set_provider_def)
qed

text \<open>
  Claim C7, amended: without a provider, \<^verbatim>\<open>setupPhantomEventListeners\<close> registers
  nothing and returns the function that does nothing. With a provider, calling the
  teardown function any number of times leaves the provider's registrations, and the
  world, as one call does, provided the functions of the callbacks object are not
  registered on the provider by other code (one call right after the subscription then
  gives back the world before it), or provided \<^verbatim>\<open>removeListener\<close> removes every
  registration of a function, as \<^verbatim>\<open>eventemitter3\<close> does.
\<close>

theorem teardown_idempotent:
  "(getPhantomProvider w = None \<longrightarrow> setupPhantomEventListeners ext cbs w = (w, (\<lambda>v. v)))
   \<and> (getPhantomProvider w = Some r \<and> unregistered cbs (heap w r) \<longrightarrow>
        (snd (setupPhantomEventListeners ext cbs w) ^^ Suc n)
           (emit_all r es (fst (setupPhantomEventListeners ext cbs w)))
        = snd (setupPhantomEventListeners ext cbs w)
           (emit_all r es (fst (setupPhantomEventListeners ext cbs w)))
        \<and> snd (setupPhantomEventListeners ext cbs w) (fst (setupPhantomEventListeners ext cbs w))
            = w)
   \<and> (getPhantomProvider w = Some r \<and> removal_impl ext = RemoveEvery \<longrightarrow>
        (snd (setupPhantomEventListeners ext cbs w) ^^ Suc n) v
        = snd (setupPhantomEventListeners ext cbs w) v)"
proof -
  have A: "setupPhantomEventListeners ext cbs w = (w, (\<lambda>v. v))" if "getPhantomProvider w = None"
    using that by (simp add: setupPhantomEventListeners_def)
  let ?w1 = "fst (setupPhantomEventListeners ext cbs w)"
  let ?td = "snd (setupPhantomEventListeners ext cbs w)"
  have B: "(?td ^^ Suc n) (emit_all r es ?w1) = ?td (emit_all r es ?w1)"
    if r: "getPhantomProvider w = Some r" and u: "unregistered cbs (heap w r)"
  proof -
    have ls: "listeners (heap (emit_all r es ?w1) r) = listeners (heap w r) @ subscriptions cbs"
      by (simp add: setup_present [OF r] set_provider_def emit_all_keeps)
    have td: "?td = teardown (removal_impl ext) r cbs"
      by (simp add: setup_present [OF r])
    have "teardown (removal_impl ext) r cbs
            (teardown (removal_impl ext) r cbs (emit_all r es ?w1))
          = teardown (removal_impl ext) r cbs (emit_all r es ?w1)"
      by (rule teardown_twice) (simp only: ls torn_after_setup [OF u] torn_absent [OF u])
    then have "?td (?td (emit_all r es ?w1)) = ?td (emit_all r es ?w1)"
      by (simp only: td)
    then show ?thesis by (rule funpow_idem)
  qed
  have C: "?td ?w1 = w"
    if r: "getPhantomProvider w = Some r" and u: "unregistered cbs (heap w r)"
    by (simp add: setup_present [OF r] teardown_as_update set_provider_def
        torn_after_setup [OF u])
  have D: "(?td ^^ Suc n) v = ?td v"
    if r: "getPhantomProvider w = Some r" and k: "removal_impl ext = RemoveEvery"
  proof -
    have "?td (?td v) = ?td v"
      by (simp add: setup_present [OF r] k teardown_twice torn_every_idem)
    then show ?thesis by (rule funpow_idem)
  qed
  show ?thesis using A B C D by blast
qed

theorem teardown_idempotent_witness:
  "setupPhantomEventListeners declining three_callbacks (world_with (Some plain_page) idle_provider)
     = (world_with (Some plain_page) idle_provider, (\<lambda>v. v))
   \<and> (snd (setupPhantomEventListeners declining three_callbacks
              (world_with (Some phantom_page) observed_provider)) ^^ Suc 2)
        (emit_all 0 [EvDisconnect]
           (fst (setupPhantomEventListeners declining three_callbacks
                   (world_with (Some phantom_page) observed_provider))))
     = snd (setupPhantomEventListeners declining three_callbacks
              (world_with (Some phantom_page) observed_provider))
        (emit_all 0 [EvDisconnect]
           (fst (setupPhantomEventListeners declining three_callbacks
                   (world_with (Some phantom_page) observed_provider))))
   \<and> snd (setupPhantomEventListeners declining three_callbacks
              (world_with (Some phantom_page) observed_provider))
        (fst (setupPhantomEventListeners declining three_callbacks
                (world_with (Some phantom_page) observed_provider)))
     = world_with (Some phantom_page) observed_provider
   \<and> (snd (setupPhantomEventListeners (approving ''Addr123'' RemoveEvery) three_callbacks
              (world_with (Some phantom_page) observed_provider)) ^^ Suc 2)
        (world_with (Some phantom_page) observed_provider)
     = snd (setupPhantomEventListeners (approving ''Addr123'' RemoveEvery) three_callbacks
              (world_with (Some phantom_page) observed_provider))
        (world_with (Some phantom_page) observed_provider)"
proof -
  have h1: "getPhantomProvider (world_with (Some plain_page) idle_provider) = None"
    by (simp add: getPhantomProvider_def world_with_def plain_page_def)
  have h2: "getPhantomProvider (world_with (Some phantom_page) observed_provider) = Some 0"
    by (simp add: getPhantomProvider_def world_with_def phantom_page_def)
  have h3: "unregistered three_callbacks (heap (world_with (Some phantom_page) observed_provider) 0)"
    by (simp add: unregistered_def given_def three_callbacks_def world_with_def
        observed_provider_def)
  have h4: "removal_impl (approving ''Addr123'' RemoveEvery) = RemoveEvery"
    by (simp add: approving_def)
  from teardown_idempotent
         [of "world_with (Some plain_page) idle_provider" declining three_callbacks 0 2
             "[EvDisconnect]" "world_with (Some phantom_page) observed_provider"]
       teardown_idempotent
         [of "world_with (Some phantom_page) observed_provider" declining three_callbacks 0 2
             "[EvDisconnect]" "world_with (Some phantom_page) observed_provider"]
       teardown_idempotent
         [of "world_with (Some phantom_page) observed_provider"
             "approving ''Addr123'' RemoveEvery" three_callbacks 0 2
             "[EvDisconnect]" "world_with (Some phantom_page) observed_provider"]
       h1 h2 h3 h4
  show ?thesis by blast
qed


end
